theory Spec2Isabelle
  imports Main
begin

section \<open>Go values used by the watcher and the health-check server\<close>

text \<open>
  The development embeds \<^verbatim>\<open>pkg/acp/envoy.go\<close> and
  \<^verbatim>\<open>cmd/entrypoint/healthcheck_server.go\<close>. Every method body runs as one
  sequential step: the mutex of the watcher only serialises the single assignment and the
  single read of \<open>LastSucceeded\<close>, so it has no field in the model.

  A byte slice is a \<open>string\<close> (the characters of HOL are bytes). A Go \<open>error\<close> is the
  text its \<open>Error()\<close> method prints; a nil error is \<open>None\<close>. A nil pointer is \<open>None\<close>.
\<close>

type_synonym bytes = string

type_synonym error = string

text \<open>How a call ends when it does not block: it panics, or it returns.\<close>

datatype panic =
    NilFuncCall
  | NilPointerDereference
  | PanicError error

datatype 'a go = Panic panic | Return 'a

text \<open>\<^verbatim>\<open>fmt.Errorf("<prefix>%v", err)\<close> and \<^verbatim>\<open>dlog.Debugf(ctx, "<prefix>%v", err)\<close>:
  the verb \<^verbatim>\<open>%v\<close> prints the error's text.\<close>

definition Errorf :: "string \<Rightarrow> error \<Rightarrow> error" where
  "Errorf prefix err = prefix @ err"

definition Debugf :: "string \<Rightarrow> error \<Rightarrow> string" where
  "Debugf prefix err = prefix @ err"

subsection \<open>Contexts\<close>

text \<open>
  A context carries the time left until its deadline, in nanoseconds (a
  \<^verbatim>\<open>time.Duration\<close>), when it has one, and whether its owner ever cancels it.
  \<^verbatim>\<open>context.WithTimeout\<close> keeps the earlier of the parent's deadline and the new
  one. The channel \<^verbatim>\<open>ctx.Done()\<close> is closed at the deadline or at cancellation.
\<close>

record "context" =
  deadline :: "nat option"
  cancels :: bool

definition Background :: "context" where
  "Background = \<lparr>deadline = None, cancels = False\<rparr>"

definition Second :: nat where
  "Second = 1000000000"

definition WithTimeout :: "context \<Rightarrow> nat \<Rightarrow> context" where
  "WithTimeout parent d =
     parent\<lparr>deadline := Some (case deadline parent of None \<Rightarrow> d | Some p \<Rightarrow> min p d)\<rparr>"


subsection \<open>HTTP headers\<close>

text \<open>
  \<^verbatim>\<open>http.Header\<close> maps a canonical key to its values.
  \<^verbatim>\<open>textproto.CanonicalMIMEHeaderKey\<close> upper-cases the first letter and every
  letter after a hyphen and lower-cases the rest; a key with a byte that is not a token
  byte is left as it is.
\<close>

type_synonym header = "string \<rightharpoonup> string list"

definition validHeaderFieldByte :: "char \<Rightarrow> bool" where
  "validHeaderFieldByte c =
     (c \<in> set ''abcdefghijklmnopqrstuvwxyzABCDEFGHIJKLMNOPQRSTUVWXYZ0123456789!#$%&*+-.^_`|~''
      \<or> c = CHR 0x27)"

definition toUpper :: "char \<Rightarrow> char" where
  "toUpper c =
     (let n = of_char c :: nat in if 97 \<le> n \<and> n \<le> 122 then char_of (n - 32) else c)"

definition toLower :: "char \<Rightarrow> char" where
  "toLower c =
     (let n = of_char c :: nat in if 65 \<le> n \<and> n \<le> 90 then char_of (n + 32) else c)"

fun canonicalMIMEHeaderKey :: "bool \<Rightarrow> string \<Rightarrow> string" where
  "canonicalMIMEHeaderKey upper [] = []"
| "canonicalMIMEHeaderKey upper (c # cs) =
     (if upper then toUpper c else toLower c) # canonicalMIMEHeaderKey (c = CHR ''-'') cs"

definition CanonicalMIMEHeaderKey :: "string \<Rightarrow> string" where
  "CanonicalMIMEHeaderKey s =
     (if list_all validHeaderFieldByte s then canonicalMIMEHeaderKey True s else s)"

definition Header_Set :: "header \<Rightarrow> string \<Rightarrow> string \<Rightarrow> header" where
  "Header_Set h key v = h(CanonicalMIMEHeaderKey key \<mapsto> [v])"

definition Header_Values :: "header \<Rightarrow> string \<Rightarrow> string list" where
  "Header_Values h key = (case h (CanonicalMIMEHeaderKey key) of None \<Rightarrow> [] | Some vs \<Rightarrow> vs)"

text \<open>A message carries a header when some value is stored under its canonical key.\<close>

definition carries :: "header \<Rightarrow> string \<Rightarrow> bool" where
  "carries h key = (Header_Values h key \<noteq> [])"

subsection \<open>Requests, responses and the network\<close>

record url =
  Scheme :: string
  Opaque :: string
  User :: "(string \<times> string option) option"
  Host :: string
  Path :: string
  RawPath :: string
  ForceQuery :: bool
  RawQuery :: string
  Fragment :: string

record http_request =
  Method :: string
  URL :: url
  Header :: header
  Body :: bytes
  Req_Host :: string
  RemoteAddr :: string
  Req_Context :: "context"

text \<open>
  A response body is a reader: the bytes it delivers, and how it ends, at end of file
  (\<open>None\<close>) or with a read error. \<^verbatim>\<open>ioutil.ReadAll\<close> reads until end of file or an
  error, returns what it read, and reports end of file as a nil error.
\<close>

datatype reader = Reader bytes "error option"

fun ReadAll :: "reader \<Rightarrow> bytes \<times> error option" where
  "ReadAll (Reader data e) = (data, e)"

record http_response =
  Resp_StatusCode :: int
  Resp_Body :: reader

text \<open>
  What the world outside answers to the two calls of the default fetcher that leave the
  program: \<^verbatim>\<open>http.NewRequestWithContext(ctx, method, url, nil)\<close> and
  \<^verbatim>\<open>http.DefaultClient.Do(req)\<close>. Either returns an error or a value (with a nil
  error the library returns a non-nil value).
\<close>

record http_env =
  NewRequestWithContext :: "context \<Rightarrow> string \<Rightarrow> string \<Rightarrow> error + http_request"
  Do :: "http_request \<Rightarrow> error + http_response"

definition MethodGet :: string where
  "MethodGet = ''GET''"

definition StatusOK :: int where
  "StatusOK = 200"

definition StatusServiceUnavailable :: int where
  "StatusServiceUnavailable = 503"

section \<open>The Envoy watcher (pkg/acp/envoy.go)\<close>

record EnvoyFetcherResponse =
  StatusCode :: int
  Text :: bytes

text \<open>
  The type \<^verbatim>\<open>envoyFetcher\<close> is declared outside the two files; its shape is that of
  \<^verbatim>\<open>defaultFetcher\<close>, which \<^verbatim>\<open>NewEnvoyWatcher\<close> installs. A fetcher sees the
  context and the world, and returns a pointer to a response (nil is \<open>None\<close>) and an error
  (nil is \<open>None\<close>).
\<close>

type_synonym envoyFetcher =
  "context \<Rightarrow> http_env \<Rightarrow> EnvoyFetcherResponse option \<times> error option"

text \<open>The zero value of the field \<open>fetchStats\<close> is the nil function, \<open>None\<close>.\<close>

record EnvoyWatcher =
  fetchStats :: "envoyFetcher option"
  LastSucceeded :: bool

text \<open>
  In \<^verbatim>\<open>defaultFetcher\<close> the two deferred calls, \<^verbatim>\<open>tcancel()\<close> and
  \<^verbatim>\<open>resp.Body.Close()\<close>, release resources and return nothing the function uses;
  they have no counterpart in the model. The receiver is not used.
\<close>

definition defaultFetcher :: envoyFetcher where
  "defaultFetcher ctx env =
     (let tctx = WithTimeout ctx (2 * Second) in
      case NewRequestWithContext env tctx MethodGet ''http://localhost:8001/stats'' of
        Inl err \<Rightarrow> (None, Some (Errorf ''error creating request: '' err))
      | Inr req \<Rightarrow>
          (case Do env req of
             Inl err \<Rightarrow> (None, Some (Errorf ''error fetching stats: '' err))
           | Inr resp \<Rightarrow>
               (let statusCode = Resp_StatusCode resp;
                    (text, err) = ReadAll (Resp_Body resp)
                in case err of
                     Some e \<Rightarrow> (None, Some (Errorf ''error reading body: '' e))
                   | None \<Rightarrow> (Some \<lparr>StatusCode = statusCode, Text = text\<rparr>, None))))"

definition SetFetchStats :: "EnvoyWatcher \<Rightarrow> envoyFetcher \<Rightarrow> EnvoyWatcher" where
  "SetFetchStats w fetch = w\<lparr>fetchStats := Some fetch\<rparr>"

definition NewEnvoyWatcher :: EnvoyWatcher where
  "NewEnvoyWatcher =
     (let w = \<lparr>fetchStats = None, LastSucceeded = False\<rparr>
      in SetFetchStats w defaultFetcher)"

text \<open>
  \<^verbatim>\<open>FetchEnvoyStats\<close> returns the watcher as updated and the lines it logged at debug
  level. Calling the nil function panics, and so does reading \<^verbatim>\<open>StatusCode\<close> through
  a nil \<^verbatim>\<open>statsResponse\<close>; both happen before \<open>LastSucceeded\<close> is assigned.
\<close>

definition FetchEnvoyStats ::
  "EnvoyWatcher \<Rightarrow> context \<Rightarrow> http_env \<Rightarrow> (EnvoyWatcher \<times> string list) go" where
  "FetchEnvoyStats w ctx env =
     (let succeeded = False in
      case fetchStats w of
        None \<Rightarrow> Panic NilFuncCall
      | Some fetch \<Rightarrow>
          (let (statsResponse, err) = fetch ctx env in
           case err of
             None \<Rightarrow>
               (case statsResponse of
                  None \<Rightarrow> Panic NilPointerDereference
                | Some r \<Rightarrow>
                    (let succeeded = (if StatusCode r = 200 then True else succeeded)
                     in Return (w\<lparr>LastSucceeded := succeeded\<rparr>, [])))
           | Some e \<Rightarrow>
               Return (w\<lparr>LastSucceeded := succeeded\<rparr>,
                       [Debugf ''could not fetch Envoy status: '' e])))"

definition IsAlive :: "EnvoyWatcher \<Rightarrow> bool" where
  "IsAlive w = LastSucceeded w"

definition IsReady :: "EnvoyWatcher \<Rightarrow> bool" where
  "IsReady w = IsAlive w"

text \<open>
  The outcome of one fetch as the specification reads it: the probe succeeded when the
  fetcher returned a nil error and a response whose status code is 200.
\<close>

definition probe_succeeded :: "EnvoyFetcherResponse option \<times> error option \<Rightarrow> bool" where
  "probe_succeeded out =
     (case out of
        (Some r, None) \<Rightarrow> StatusCode r = 200
      | _ \<Rightarrow> False)"

text \<open>
  The watcher as the caller finds it after a call of \<open>FetchEnvoyStats\<close>. The watcher
  is reached through a pointer, and both panics come before the assignment to
  \<open>LastSucceeded\<close>: a call that panics leaves the watcher as it was.
\<close>

definition watcher_after :: "EnvoyWatcher \<Rightarrow> context \<Rightarrow> http_env \<Rightarrow> EnvoyWatcher" where
  "watcher_after w ctx env =
     (case FetchEnvoyStats w ctx env of
        Panic p \<Rightarrow> w
      | Return (w', logged) \<Rightarrow> w')"

section \<open>The health-check server (cmd/entrypoint/healthcheck_server.go)\<close>

subsection \<open>Writing a response\<close>

text \<open>
  The response a handler writes through its \<^verbatim>\<open>http.ResponseWriter\<close>: whether the
  status line is out, the status, the header map and the body written so far. As net/http
  has it, \<^verbatim>\<open>WriteHeader\<close> counts once, \<^verbatim>\<open>Write\<close> sends status 200 first when
  no status is out yet, and \<^verbatim>\<open>http.Error\<close> sets the content type to plain text,
  sends the status and prints the message with \<^verbatim>\<open>fmt.Fprintln\<close>, which appends a
  newline. (The content type net/http sniffs for a body written without one is not
  modelled.)
\<close>

record ResponseWriter =
  wroteHeader :: bool
  status :: int
  Resp_Header :: header
  written :: bytes

definition newResponseWriter :: ResponseWriter where
  "newResponseWriter =
     \<lparr>wroteHeader = False, status = 0, Resp_Header = Map.empty, written = []\<rparr>"

definition WriteHeader :: "ResponseWriter \<Rightarrow> int \<Rightarrow> ResponseWriter" where
  "WriteHeader w code = (if wroteHeader w then w else w\<lparr>wroteHeader := True, status := code\<rparr>)"

definition Write :: "ResponseWriter \<Rightarrow> bytes \<Rightarrow> ResponseWriter" where
  "Write w b =
     (let w = (if wroteHeader w then w else WriteHeader w StatusOK)
      in w\<lparr>written := written w @ b\<rparr>)"

definition Fprintln :: "ResponseWriter \<Rightarrow> string \<Rightarrow> ResponseWriter" where
  "Fprintln w s = Write w (s @ ''\<newline>'')"

definition http_Error :: "ResponseWriter \<Rightarrow> string \<Rightarrow> int \<Rightarrow> ResponseWriter" where
  "http_Error w err code =
     (let w = w\<lparr>Resp_Header := Header_Set (Resp_Header w) ''Content-Type'' ''text/plain; charset=utf-8''\<rparr>;
          w = w\<lparr>Resp_Header := Header_Set (Resp_Header w) ''X-Content-Type-Options'' ''nosniff''\<rparr>;
          w = WriteHeader w code
      in Fprintln w err)"

subsection \<open>The two probe handlers\<close>

text \<open>
  The handlers take an \<^verbatim>\<open>*acp.AmbassadorWatcher\<close>, a type declared outside the two
  files. Its three methods the handlers call are parameters of the model: the state
  \<open>'aw\<close> of the watcher and what each method does with it.
\<close>

record 'aw AmbassadorWatcher =
  aw_FetchEnvoyStats :: "'aw \<Rightarrow> context \<Rightarrow> http_env \<Rightarrow> 'aw go"
  aw_IsAlive :: "'aw \<Rightarrow> bool"
  aw_IsReady :: "'aw \<Rightarrow> bool"

definition handleCheckAlive ::
  "'aw AmbassadorWatcher \<Rightarrow> context \<Rightarrow> ResponseWriter \<Rightarrow> http_request \<Rightarrow> 'aw \<Rightarrow> http_env
     \<Rightarrow> (ResponseWriter \<times> 'aw) go" where
  "handleCheckAlive M ctx w r ambwatch env =
     (case aw_FetchEnvoyStats M ambwatch ctx env of
        Panic p \<Rightarrow> Panic p
      | Return ambwatch \<Rightarrow>
          (let ok = aw_IsAlive M ambwatch in
           if ok then Return (Write w ''Ambassador is alive and well\<newline>'', ambwatch)
           else Return (http_Error w ''Ambassador is not alive\<newline>'' StatusServiceUnavailable,
                        ambwatch)))"

definition handleCheckReady ::
  "'aw AmbassadorWatcher \<Rightarrow> context \<Rightarrow> ResponseWriter \<Rightarrow> http_request \<Rightarrow> 'aw \<Rightarrow> http_env
     \<Rightarrow> (ResponseWriter \<times> 'aw) go" where
  "handleCheckReady M ctx w r ambwatch env =
     (case aw_FetchEnvoyStats M ambwatch ctx env of
        Panic p \<Rightarrow> Panic p
      | Return ambwatch \<Rightarrow>
          (let ok = aw_IsReady M ambwatch in
           if ok then Return (Write w ''Ambassador is ready and waiting\<newline>'', ambwatch)
           else Return (http_Error w ''Ambassador is not ready\<newline>'' StatusServiceUnavailable,
                        ambwatch)))"

text \<open>
  Modelled from the spec: the methods of \<^verbatim>\<open>acp.AmbassadorWatcher\<close> are missing from
  the two files; the specification has the handlers backed by the Watcher of
  \<^verbatim>\<open>envoy.go\<close>, its Probe, IsAlive and IsReady. The debug lines of the probe go to the
  log, not to the handler.
\<close>

definition watcher_methods :: "EnvoyWatcher AmbassadorWatcher" where
  "watcher_methods =
     \<lparr>aw_FetchEnvoyStats =
        (\<lambda>w ctx env. case FetchEnvoyStats w ctx env of
                        Panic p \<Rightarrow> Panic p
                      | Return (w', logged) \<Rightarrow> Return w'),
      aw_IsAlive = IsAlive,
      aw_IsReady = IsReady\<rparr>"

subsection \<open>The director of the reverse proxy\<close>

text \<open>\<^verbatim>\<open>url.Parse("http://127.0.0.1:8004/")\<close>.\<close>

definition diagdOrigin :: url where
  "diagdOrigin =
     \<lparr>Scheme = ''http'', Opaque = [], User = None, Host = ''127.0.0.1:8004'', Path = ''/'',
      RawPath = [], ForceQuery = False, RawQuery = [], Fragment = []\<rparr>"

text \<open>
  \<^verbatim>\<open>acp.HostPortIsLocal\<close> is declared outside the two files: the test the director
  applies to the remote address is a parameter.
\<close>

definition Director :: "(string \<Rightarrow> bool) \<Rightarrow> http_request \<Rightarrow> http_request" where
  "Director HostPortIsLocal req =
     (let req = req\<lparr>URL := (URL req)\<lparr>Scheme := Scheme diagdOrigin\<rparr>\<rparr>;
          req = req\<lparr>URL := (URL req)\<lparr>Host := Host diagdOrigin\<rparr>\<rparr>
      in if HostPortIsLocal (RemoteAddr req)
         then req\<lparr>Header := Header_Set (Header req) ''X-Ambassador-Diag-IP'' ''127.0.0.1''\<rparr>
         else req)"

subsection \<open>The server routine\<close>





section \<open>Sample inputs\<close>

text \<open>A stats request as the library builds it, and worlds in which Envoy answers, is
  down, or breaks the connection in the middle of the body.\<close>

definition stats_request :: "context \<Rightarrow> string \<Rightarrow> string \<Rightarrow> http_request" where
  "stats_request ctx m u =
     \<lparr>Method = m,
      URL = \<lparr>Scheme = ''http'', Opaque = [], User = None, Host = ''localhost:8001'',
             Path = ''/stats'', RawPath = [], ForceQuery = False, RawQuery = [], Fragment = []\<rparr>,
      Header = Map.empty, Body = [], Req_Host = ''localhost:8001'', RemoteAddr = [],
      Req_Context = ctx\<rparr>"

definition envoy_up :: http_env where
  "envoy_up =
     \<lparr>NewRequestWithContext = (\<lambda>ctx m u. Inr (stats_request ctx m u)),
      Do = (\<lambda>req. Inr \<lparr>Resp_StatusCode = 200, Resp_Body = Reader ''server.uptime: 12'' None\<rparr>)\<rparr>"

definition envoy_down :: http_env where
  "envoy_down =
     \<lparr>NewRequestWithContext = (\<lambda>ctx m u. Inr (stats_request ctx m u)),
      Do = (\<lambda>req. Inl ''connection refused'')\<rparr>"

definition envoy_cut :: http_env where
  "envoy_cut =
     \<lparr>NewRequestWithContext = (\<lambda>ctx m u. Inr (stats_request ctx m u)),
      Do = (\<lambda>req. Inr \<lparr>Resp_StatusCode = 200,
                        Resp_Body = Reader ''server.up'' (Some ''unexpected EOF'')\<rparr>)\<rparr>"

text \<open>Test fetchers, as \<^verbatim>\<open>SetFetchStats\<close> installs them.\<close>

definition fetch_status :: "int \<Rightarrow> envoyFetcher" where
  "fetch_status code ctx env = (Some \<lparr>StatusCode = code, Text = []\<rparr>, None)"

definition fetch_error :: envoyFetcher where
  "fetch_error ctx env = (None, Some ''fetch failed'')"

definition fetch_nothing :: envoyFetcher where
  "fetch_nothing ctx env = (None, None)"

text \<open>A request from a remote client that names itself local, and one from the local host.\<close>

definition spoofed_request :: http_request where
  "spoofed_request =
     \<lparr>Method = ''GET'',
      URL = \<lparr>Scheme = [], Opaque = [], User = None, Host = [], Path = ''/ambassador/v0/diag/'',
             RawPath = [], ForceQuery = False, RawQuery = ''json=true'', Fragment = []\<rparr>,
      Header = [''X-Ambassador-Diag-Ip'' \<mapsto> [''127.0.0.1'']],
      Body = [], Req_Host = ''ambassador.example.com:8877'', RemoteAddr = ''10.0.0.5:40000'',
      Req_Context = Background\<rparr>"

definition local_request :: http_request where
  "local_request =
     \<lparr>Method = ''POST'',
      URL = \<lparr>Scheme = [], Opaque = [], User = None, Host = [], Path = ''/ambassador/v0/diag/'',
             RawPath = [], ForceQuery = False, RawQuery = ''json=true'', Fragment = []\<rparr>,
      Header = Map.empty,
      Body = ''payload'', Req_Host = ''localhost:8877'', RemoteAddr = ''127.0.0.1:51234'',
      Req_Context = Background\<rparr>"





text \<open>A sample of the parameter of the director: the host before the port is
  \<^verbatim>\<open>127.0.0.1\<close> or \<^verbatim>\<open>localhost\<close>.\<close>

definition loopback_hostport :: "string \<Rightarrow> bool" where
  "loopback_hostport hostport =
     (takeWhile (\<lambda>c. c \<noteq> CHR '':'') hostport \<in> set [''127.0.0.1'', ''localhost''])"

text \<open>The number of newline bytes a body ends in.\<close>

definition trailing_newlines :: "bytes \<Rightarrow> nat" where
  "trailing_newlines b = length (takeWhile (\<lambda>c. c = CHR 0x0A) (rev b))"

section \<open>What one probe does\<close>

lemma FetchEnvoyStats_cases:
  assumes "fetchStats w = Some f" and "f ctx env = (resp, err)"
  shows "FetchEnvoyStats w ctx env =
           (case err of
              Some e \<Rightarrow>
                Return (w\<lparr>LastSucceeded := False\<rparr>, [Debugf ''could not fetch Envoy status: '' e])
            | None \<Rightarrow>
                (case resp of
                   None \<Rightarrow> Panic NilPointerDereference
                 | Some r \<Rightarrow> Return (w\<lparr>LastSucceeded := (StatusCode r = 200)\<rparr>, [])))"
  using assms by (simp add: FetchEnvoyStats_def split: option.splits)

lemma FetchEnvoyStats_nil_fetcher:
  "fetchStats w = None \<Longrightarrow> FetchEnvoyStats w ctx env = Panic NilFuncCall"
  by (simp add: FetchEnvoyStats_def)

lemma fetchStats_SetFetchStats: "fetchStats (SetFetchStats w f) = Some f"
  by (simp add: SetFetchStats_def)

lemma watcher_after_cases:
  assumes "fetchStats w = Some f" and "f ctx env = (resp, err)"
  shows "watcher_after w ctx env =
           (case err of
              Some e \<Rightarrow> w\<lparr>LastSucceeded := False\<rparr>
            | None \<Rightarrow>
                (case resp of
                   None \<Rightarrow> w
                 | Some r \<Rightarrow> w\<lparr>LastSucceeded := (StatusCode r = 200)\<rparr>))"
  by (simp add: watcher_after_def FetchEnvoyStats_cases [OF assms] split: option.splits)

text \<open>
  Claim C1, as amended. For every prior watcher state and every installed fetcher that
  does not return a nil response together with a nil error, the call of
  \<open>FetchEnvoyStats\<close> returns, and immediately after it \<open>IsAlive\<close> and \<open>IsReady\<close> are both
  true exactly when the fetcher returned a nil error and a response with status code 200,
  and both false otherwise (any other status code, 2xx or not, and any error).
\<close>

theorem FetchEnvoyStats_alive_iff_200:
  assumes "fetchStats w = Some f" and "f ctx env \<noteq> (None, None)"
  shows "(\<exists>logged. FetchEnvoyStats w ctx env = Return (watcher_after w ctx env, logged))
       \<and> ((IsAlive (watcher_after w ctx env) \<and> IsReady (watcher_after w ctx env)) =
            (\<exists>r. f ctx env = (Some r, None) \<and> StatusCode r = 200))
       \<and> ((\<not> IsAlive (watcher_after w ctx env) \<and> \<not> IsReady (watcher_after w ctx env)) =
            (\<not> (\<exists>r. f ctx env = (Some r, None) \<and> StatusCode r = 200)))"
proof -
  obtain resp err where out: "f ctx env = (resp, err)"
    by (cases "f ctx env") simp
  have after: "LastSucceeded (watcher_after w ctx env)
                 = (\<exists>r. resp = Some r \<and> err = None \<and> StatusCode r = 200)"
    using assms(2) out
    by (auto simp: watcher_after_cases [OF assms(1) out] split: option.splits)
  have ret: "\<exists>logged. FetchEnvoyStats w ctx env = Return (watcher_after w ctx env, logged)"
    using assms(2) out
    by (auto simp: watcher_after_def FetchEnvoyStats_cases [OF assms(1) out]
             split: option.splits)
  from after out ret show ?thesis
    by (auto simp: IsAlive_def IsReady_def)
qed

text \<open>The theorem at a fetcher that answers 200 and at one that answers 204, each
  installed in a fresh watcher, and at a fetcher that fails, installed in a watcher whose
  last probe had succeeded.\<close>

theorem FetchEnvoyStats_alive_iff_200_witness:
  "(IsAlive (watcher_after (SetFetchStats NewEnvoyWatcher (fetch_status 200))
               Background envoy_down)
    \<and> IsReady (watcher_after (SetFetchStats NewEnvoyWatcher (fetch_status 200))
                 Background envoy_down))
   \<and> (\<not> IsAlive (watcher_after (SetFetchStats NewEnvoyWatcher (fetch_status 204))
                    Background envoy_up)
      \<and> \<not> IsReady (watcher_after (SetFetchStats NewEnvoyWatcher (fetch_status 204))
                      Background envoy_up))
   \<and> (\<not> IsAlive (watcher_after
                    (SetFetchStats (NewEnvoyWatcher\<lparr>LastSucceeded := True\<rparr>) fetch_error)
                    Background envoy_up)
      \<and> \<not> IsReady (watcher_after
                      (SetFetchStats (NewEnvoyWatcher\<lparr>LastSucceeded := True\<rparr>) fetch_error)
                      Background envoy_up))"
proof -
  have ok: "fetch_status 200 Background envoy_down \<noteq> (None, None)"
    and ok_200: "\<exists>r. fetch_status 200 Background envoy_down = (Some r, None) \<and> StatusCode r = 200"
    by (simp_all add: fetch_status_def)
  have nc: "fetch_status 204 Background envoy_up \<noteq> (None, None)"
    and nc_204: "\<not> (\<exists>r. fetch_status 204 Background envoy_up = (Some r, None)
                       \<and> StatusCode r = 200)"
    by (simp_all add: fetch_status_def)
  have er: "fetch_error Background envoy_up \<noteq> (None, None)"
    and er_no: "\<not> (\<exists>r. fetch_error Background envoy_up = (Some r, None) \<and> StatusCode r = 200)"
    by (simp_all add: fetch_error_def)
  from FetchEnvoyStats_alive_iff_200
         [of "SetFetchStats NewEnvoyWatcher (fetch_status 200)" "fetch_status 200"
             Background envoy_down,
          OF fetchStats_SetFetchStats ok] ok_200
  have first:
    "IsAlive (watcher_after (SetFetchStats NewEnvoyWatcher (fetch_status 200))
                Background envoy_down)
     \<and> IsReady (watcher_after (SetFetchStats NewEnvoyWatcher (fetch_status 200))
                  Background envoy_down)"
    by blast
  from FetchEnvoyStats_alive_iff_200
         [of "SetFetchStats NewEnvoyWatcher (fetch_status 204)" "fetch_status 204"
             Background envoy_up,
          OF fetchStats_SetFetchStats nc] nc_204
  have second:
    "\<not> IsAlive (watcher_after (SetFetchStats NewEnvoyWatcher (fetch_status 204))
                  Background envoy_up)
     \<and> \<not> IsReady (watcher_after (SetFetchStats NewEnvoyWatcher (fetch_status 204))
                    Background envoy_up)"
    by blast
  from FetchEnvoyStats_alive_iff_200
         [of "SetFetchStats (NewEnvoyWatcher\<lparr>LastSucceeded := True\<rparr>) fetch_error" fetch_error
             Background envoy_up,
          OF fetchStats_SetFetchStats er] er_no
  have third:
    "\<not> IsAlive (watcher_after
                  (SetFetchStats (NewEnvoyWatcher\<lparr>LastSucceeded := True\<rparr>) fetch_error)
                  Background envoy_up)
     \<and> \<not> IsReady (watcher_after
                    (SetFetchStats (NewEnvoyWatcher\<lparr>LastSucceeded := True\<rparr>) fetch_error)
                    Background envoy_up)"
    by blast
  from first second third show ?thesis by blast
qed

text \<open>Claim C1 as stated fails: a fetcher that returns a nil response with a nil error,
  installed in a watcher whose last probe had succeeded, makes the call panic before it
  assigns \<open>LastSucceeded\<close>; after the call \<open>IsAlive\<close> and \<open>IsReady\<close> are still true
  although the fetcher returned no response with status code 200.\<close>

theorem FetchEnvoyStats_nil_outcome_leaves_alive:
  "fetch_nothing Background envoy_up = (None, None)
   \<and> FetchEnvoyStats (SetFetchStats (NewEnvoyWatcher\<lparr>LastSucceeded := True\<rparr>) fetch_nothing)
        Background envoy_up
       = Panic NilPointerDereference
   \<and> IsAlive (watcher_after
               (SetFetchStats (NewEnvoyWatcher\<lparr>LastSucceeded := True\<rparr>) fetch_nothing)
               Background envoy_up)
   \<and> IsReady (watcher_after
               (SetFetchStats (NewEnvoyWatcher\<lparr>LastSucceeded := True\<rparr>) fetch_nothing)
               Background envoy_up)"
  by (simp add: watcher_after_def FetchEnvoyStats_def SetFetchStats_def NewEnvoyWatcher_def
        fetch_nothing_def IsAlive_def IsReady_def)

text \<open>
  Claim C2. A watcher as \<open>NewEnvoyWatcher\<close> returns it, on which no probe has run,
  reports neither alive nor ready.
\<close>

theorem NewEnvoyWatcher_fails_closed:
  "IsAlive NewEnvoyWatcher = False \<and> IsReady NewEnvoyWatcher = False"
  by (simp add: IsAlive_def IsReady_def NewEnvoyWatcher_def SetFetchStats_def)

text \<open>
  Claim C4. In every watcher state \<open>IsReady\<close> returns the boolean \<open>IsAlive\<close> returns,
  the last probe's success; \<open>IsReady\<close> is an operation of its own that calls \<open>IsAlive\<close>.
\<close>

theorem IsReady_is_IsAlive:
  "IsReady w = IsAlive w \<and> IsAlive w = LastSucceeded w"
  by (simp add: IsReady_def IsAlive_def)

text \<open>
  Claim C3, as amended. \<open>FetchEnvoyStats\<close> has no error result, so no error of the
  fetcher reaches its caller. For every outcome of the installed fetcher other than a nil
  response with a nil error it returns, and the health state and the debug lines it leaves
  are those fixed by that outcome alone (\<open>probe_succeeded\<close>): two watchers with any prior
  states, contexts and worlds whose fetchers give the same outcome end with the same
  \<open>LastSucceeded\<close>. The fetcher stays installed.
\<close>

theorem FetchEnvoyStats_outcome_alone:
  assumes "fetchStats w1 = Some f1" and "fetchStats w2 = Some f2"
    and "f1 ctx1 env1 = out" and "f2 ctx2 env2 = out"
    and "out \<noteq> (None, None)"
  shows "\<exists>w1' w2' logged.
           FetchEnvoyStats w1 ctx1 env1 = Return (w1', logged) \<and>
           FetchEnvoyStats w2 ctx2 env2 = Return (w2', logged) \<and>
           LastSucceeded w1' = probe_succeeded out \<and>
           LastSucceeded w2' = probe_succeeded out \<and>
           fetchStats w1' = fetchStats w1 \<and> fetchStats w2' = fetchStats w2"
proof -
  obtain resp err where out: "out = (resp, err)"
    by (cases out) simp
  show ?thesis
  proof (cases err)
    case (Some e)
    with assms out show ?thesis
      by (simp add: FetchEnvoyStats_cases [where resp = resp and err = err] probe_succeeded_def
               split: option.splits)
  next
    case None
    with assms(5) out obtain r where r: "resp = Some r"
      by (cases resp) simp_all
    with None assms out show ?thesis
      by (simp add: FetchEnvoyStats_cases [where resp = resp and err = err] probe_succeeded_def)
  qed
qed

text \<open>The theorem at a failing fetcher, installed in a fresh watcher and in one whose
  last probe had succeeded.\<close>

theorem FetchEnvoyStats_outcome_alone_witness:
  "\<exists>w1' w2' logged.
     FetchEnvoyStats (SetFetchStats NewEnvoyWatcher fetch_error) Background envoy_up
       = Return (w1', logged) \<and>
     FetchEnvoyStats (SetFetchStats (NewEnvoyWatcher\<lparr>LastSucceeded := True\<rparr>) fetch_error)
         (WithTimeout Background Second) envoy_down
       = Return (w2', logged) \<and>
     LastSucceeded w1' = False \<and> LastSucceeded w2' = False"
proof -
  have ne: "(None, Some ''fetch failed'')
              \<noteq> (None :: EnvoyFetcherResponse option, None :: error option)"
    by simp
  have ps: "probe_succeeded (None, Some ''fetch failed'') = False"
    by (simp add: probe_succeeded_def)
  from FetchEnvoyStats_outcome_alone
         [OF fetchStats_SetFetchStats fetchStats_SetFetchStats _ _ ne,
          of fetch_error Background envoy_up fetch_error "WithTimeout Background Second" envoy_down
             NewEnvoyWatcher "NewEnvoyWatcher\<lparr>LastSucceeded := True\<rparr>"]
  show ?thesis
    unfolding ps by (simp add: fetch_error_def) blast
qed

text \<open>Claim C3 as stated fails: a fetcher that returns a nil response with a nil error
  makes \<open>FetchEnvoyStats\<close> panic on \<^verbatim>\<open>statsResponse.StatusCode\<close>.\<close>

theorem FetchEnvoyStats_nil_outcome_panics:
  "FetchEnvoyStats (SetFetchStats NewEnvoyWatcher fetch_nothing) Background envoy_up
     = Panic NilPointerDereference"
  by (simp add: FetchEnvoyStats_def SetFetchStats_def NewEnvoyWatcher_def fetch_nothing_def)

text \<open>
  Claim C10. With a fetcher installed, a non-nil error makes \<open>FetchEnvoyStats\<close> record a
  failure whatever the response pointer is, nil included: the response is read only under
  a nil error. The call dereferences nil exactly when the fetcher returns a nil response
  with a nil error, and it panics in no other case.
\<close>

theorem FetchEnvoyStats_reads_response_only_without_error:
  assumes "fetchStats w = Some f"
  shows "(f ctx env = (resp, Some e) \<longrightarrow>
            FetchEnvoyStats w ctx env =
              Return (w\<lparr>LastSucceeded := False\<rparr>, [Debugf ''could not fetch Envoy status: '' e]))
       \<and> ((FetchEnvoyStats w ctx env = Panic NilPointerDereference) = (f ctx env = (None, None)))
       \<and> ((\<exists>p. FetchEnvoyStats w ctx env = Panic p) = (f ctx env = (None, None)))"
proof -
  obtain resp' err' where out: "f ctx env = (resp', err')"
    by (cases "f ctx env") simp
  from FetchEnvoyStats_cases [OF assms out] out show ?thesis
    by (auto split: option.splits)
qed

theorem FetchEnvoyStats_reads_response_only_without_error_witness:
  "FetchEnvoyStats (SetFetchStats NewEnvoyWatcher fetch_error) Background envoy_up
     = Return (SetFetchStats NewEnvoyWatcher fetch_error\<lparr>LastSucceeded := False\<rparr>,
               [''could not fetch Envoy status: fetch failed''])
   \<and> (\<exists>p. FetchEnvoyStats (SetFetchStats NewEnvoyWatcher fetch_nothing) Background envoy_up
            = Panic p)"
proof -
  have a: "fetch_error Background envoy_up = (None, Some ''fetch failed'')"
    by (simp add: fetch_error_def)
  have b: "fetch_nothing Background envoy_up = (None, None)"
    by (simp add: fetch_nothing_def)
  from FetchEnvoyStats_reads_response_only_without_error
         [OF fetchStats_SetFetchStats,
          of fetch_error Background envoy_up None "''fetch failed''" NewEnvoyWatcher] a
  have first: "FetchEnvoyStats (SetFetchStats NewEnvoyWatcher fetch_error) Background envoy_up
     = Return (SetFetchStats NewEnvoyWatcher fetch_error\<lparr>LastSucceeded := False\<rparr>,
               [''could not fetch Envoy status: fetch failed''])"
    by (simp add: Debugf_def)
  from FetchEnvoyStats_reads_response_only_without_error
         [OF fetchStats_SetFetchStats,
          of fetch_nothing Background envoy_up None "''x''" NewEnvoyWatcher] b
  have second:
    "\<exists>p. FetchEnvoyStats (SetFetchStats NewEnvoyWatcher fetch_nothing) Background envoy_up = Panic p"
    by blast
  from first second show ?thesis by blast
qed

section \<open>The default fetcher\<close>

lemma defaultFetcher_request_fails:
  assumes "NewRequestWithContext env (WithTimeout ctx (2 * Second)) MethodGet
             ''http://localhost:8001/stats'' = Inl err"
  shows "defaultFetcher ctx env = (None, Some (''error creating request: '' @ err))"
  using assms by (simp add: defaultFetcher_def Errorf_def)

lemma defaultFetcher_round_trip_fails:
  assumes "NewRequestWithContext env (WithTimeout ctx (2 * Second)) MethodGet
             ''http://localhost:8001/stats'' = Inr req"
    and "Do env req = Inl err"
  shows "defaultFetcher ctx env = (None, Some (''error fetching stats: '' @ err))"
  using assms by (simp add: defaultFetcher_def Errorf_def)

lemma defaultFetcher_read_fails:
  assumes "NewRequestWithContext env (WithTimeout ctx (2 * Second)) MethodGet
             ''http://localhost:8001/stats'' = Inr req"
    and "Do env req = Inr resp"
    and "ReadAll (Resp_Body resp) = (part, Some err)"
  shows "defaultFetcher ctx env = (None, Some (''error reading body: '' @ err))"
  using assms by (simp add: defaultFetcher_def Errorf_def)

lemma defaultFetcher_succeeds:
  assumes "NewRequestWithContext env (WithTimeout ctx (2 * Second)) MethodGet
             ''http://localhost:8001/stats'' = Inr req"
    and "Do env req = Inr resp"
    and "ReadAll (Resp_Body resp) = (text, None)"
  shows "defaultFetcher ctx env = (Some \<lparr>StatusCode = Resp_StatusCode resp, Text = text\<rparr>, None)"
  using assms by (simp add: defaultFetcher_def)

lemma defaultFetcher_result_complete:
  assumes "defaultFetcher ctx env = (Some r, None)"
  shows "\<exists>req resp.
           NewRequestWithContext env (WithTimeout ctx (2 * Second)) MethodGet
             ''http://localhost:8001/stats'' = Inr req \<and>
           Do env req = Inr resp \<and>
           StatusCode r = Resp_StatusCode resp \<and>
           Resp_Body resp = Reader (Text r) None"
proof -
  from assms obtain req where req:
    "NewRequestWithContext env (WithTimeout ctx (2 * Second)) MethodGet
       ''http://localhost:8001/stats'' = Inr req"
    by (auto simp: defaultFetcher_def split: sum.splits)
  from assms req obtain resp where resp: "Do env req = Inr resp"
    by (auto simp: defaultFetcher_def split: sum.splits)
  obtain data e where body: "Resp_Body resp = Reader data e"
    by (cases "Resp_Body resp") simp
  from assms req resp body
  have "e = None" and "r = \<lparr>StatusCode = Resp_StatusCode resp, Text = data\<rparr>"
    by (auto simp: defaultFetcher_def split: option.splits)
  with req resp body show ?thesis by simp
qed

text \<open>
  Claim C8. The default fetcher returns a response with a nil error, or a nil response
  with an error, and nothing else. A request that cannot be built, a round trip that
  fails and a body whose reading fails (whatever part of it was read) each give an error
  and no response. A response it returns holds the status code of the answer and the
  whole body, read to end of file.
\<close>

theorem defaultFetcher_result_or_error:
  "(NewRequestWithContext env (WithTimeout ctx (2 * Second)) MethodGet
        ''http://localhost:8001/stats'' = Inl err \<longrightarrow>
      defaultFetcher ctx env = (None, Some (''error creating request: '' @ err)))
   \<and> (NewRequestWithContext env (WithTimeout ctx (2 * Second)) MethodGet
        ''http://localhost:8001/stats'' = Inr req \<longrightarrow>
       (Do env req = Inl err \<longrightarrow>
          defaultFetcher ctx env = (None, Some (''error fetching stats: '' @ err)))
       \<and> (Do env req = Inr resp \<longrightarrow>
            (ReadAll (Resp_Body resp) = (part, Some err) \<longrightarrow>
               defaultFetcher ctx env = (None, Some (''error reading body: '' @ err)))
            \<and> (Resp_Body resp = Reader text None \<longrightarrow>
                 defaultFetcher ctx env =
                   (Some \<lparr>StatusCode = Resp_StatusCode resp, Text = text\<rparr>, None))))
   \<and> ((\<exists>r. defaultFetcher ctx env = (Some r, None)) \<or>
       (\<exists>e. defaultFetcher ctx env = (None, Some e)))
   \<and> (defaultFetcher ctx env = (Some r, None) \<longrightarrow>
        (\<exists>req resp.
           NewRequestWithContext env (WithTimeout ctx (2 * Second)) MethodGet
             ''http://localhost:8001/stats'' = Inr req \<and>
           Do env req = Inr resp \<and>
           StatusCode r = Resp_StatusCode resp \<and>
           Resp_Body resp = Reader (Text r) None))"
proof (intro conjI impI)
  show "(\<exists>r. defaultFetcher ctx env = (Some r, None)) \<or>
        (\<exists>e. defaultFetcher ctx env = (None, Some e))"
    by (simp add: defaultFetcher_def split: sum.splits prod.splits option.splits)
next
  assume "defaultFetcher ctx env = (Some r, None)"
  then show "\<exists>req resp.
           NewRequestWithContext env (WithTimeout ctx (2 * Second)) MethodGet
             ''http://localhost:8001/stats'' = Inr req \<and>
           Do env req = Inr resp \<and>
           StatusCode r = Resp_StatusCode resp \<and>
           Resp_Body resp = Reader (Text r) None"
    by (rule defaultFetcher_result_complete)
qed (simp_all add: defaultFetcher_request_fails defaultFetcher_round_trip_fails
       defaultFetcher_read_fails defaultFetcher_succeeds)

text \<open>The theorem in three worlds: the connection breaks in the middle of the body, Envoy
  answers, Envoy is down.\<close>

theorem defaultFetcher_result_or_error_witness:
  "defaultFetcher Background envoy_cut = (None, Some ''error reading body: unexpected EOF'')
   \<and> defaultFetcher Background envoy_up
       = (Some \<lparr>StatusCode = 200, Text = ''server.uptime: 12''\<rparr>, None)
   \<and> defaultFetcher Background envoy_down
       = (None, Some ''error fetching stats: connection refused'')"
proof -
  let ?ctx = "WithTimeout Background (2 * Second)"
  let ?req = "stats_request ?ctx MethodGet ''http://localhost:8001/stats''"
  let ?cut = "\<lparr>Resp_StatusCode = 200, Resp_Body = Reader ''server.up'' (Some ''unexpected EOF'')\<rparr>"
  let ?up = "\<lparr>Resp_StatusCode = 200, Resp_Body = Reader ''server.uptime: 12'' None\<rparr>"
  have "defaultFetcher Background envoy_cut
          = (None, Some (''error reading body: '' @ ''unexpected EOF''))"
    using defaultFetcher_result_or_error
            [of envoy_cut Background "''unexpected EOF''" ?req ?cut "''server.up''" "[]"]
    by (simp add: envoy_cut_def)
  moreover
  have "defaultFetcher Background envoy_up
          = (Some \<lparr>StatusCode = Resp_StatusCode ?up, Text = ''server.uptime: 12''\<rparr>, None)"
    using defaultFetcher_result_or_error
            [of envoy_up Background "[]" ?req ?up "[]" "''server.uptime: 12''"]
    by (simp add: envoy_up_def)
  moreover
  have "defaultFetcher Background envoy_down
          = (None, Some (''error fetching stats: '' @ ''connection refused''))"
    using defaultFetcher_result_or_error
            [of envoy_down Background "''connection refused''" ?req ?up "[]" "[]"]
    by (simp add: envoy_down_def)
  ultimately show ?thesis by simp
qed

section \<open>The probe handlers\<close>

lemma canonical_content_type:
  "CanonicalMIMEHeaderKey ''Content-Type'' = ''Content-Type''"
  by code_simp

lemma canonical_nosniff:
  "CanonicalMIMEHeaderKey ''X-Content-Type-Options'' = ''X-Content-Type-Options''"
  by code_simp

lemma canonical_marker:
  "CanonicalMIMEHeaderKey ''X-Ambassador-Diag-IP'' = ''X-Ambassador-Diag-Ip''"
  by code_simp

lemma handleCheckAlive_eq:
  "handleCheckAlive M ctx newResponseWriter r ambwatch env =
     (case aw_FetchEnvoyStats M ambwatch ctx env of
        Panic p \<Rightarrow> Panic p
      | Return aw' \<Rightarrow>
          Return
            (if aw_IsAlive M aw'
             then \<lparr>wroteHeader = True, status = 200, Resp_Header = Map.empty,
                   written = ''Ambassador is alive and well\<newline>''\<rparr>
             else \<lparr>wroteHeader = True, status = 503,
                   Resp_Header = [''Content-Type'' \<mapsto> [''text/plain; charset=utf-8''],
                                  ''X-Content-Type-Options'' \<mapsto> [''nosniff'']],
                   written = ''Ambassador is not alive\<newline>\<newline>''\<rparr>,
             aw'))"
  by (simp add: handleCheckAlive_def newResponseWriter_def Write_def WriteHeader_def
        http_Error_def Fprintln_def Header_Set_def StatusOK_def StatusServiceUnavailable_def
        canonical_content_type canonical_nosniff
      split: go.splits)

lemma handleCheckReady_eq:
  "handleCheckReady M ctx newResponseWriter r ambwatch env =
     (case aw_FetchEnvoyStats M ambwatch ctx env of
        Panic p \<Rightarrow> Panic p
      | Return aw' \<Rightarrow>
          Return
            (if aw_IsReady M aw'
             then \<lparr>wroteHeader = True, status = 200, Resp_Header = Map.empty,
                   written = ''Ambassador is ready and waiting\<newline>''\<rparr>
             else \<lparr>wroteHeader = True, status = 503,
                   Resp_Header = [''Content-Type'' \<mapsto> [''text/plain; charset=utf-8''],
                                  ''X-Content-Type-Options'' \<mapsto> [''nosniff'']],
                   written = ''Ambassador is not ready\<newline>\<newline>''\<rparr>,
             aw'))"
  by (simp add: handleCheckReady_def newResponseWriter_def Write_def WriteHeader_def
        http_Error_def Fprintln_def Header_Set_def StatusOK_def StatusServiceUnavailable_def
        canonical_content_type canonical_nosniff
      split: go.splits)

text \<open>
  Claim C5, what the code does. On a fresh response writer and for any watcher, each
  handler runs the probe first and answers from the watcher the probe leaves (it panics
  when the probe does). A healthy watcher gives status 200 and a body that ends in one
  newline. An unhealthy watcher gives status 503 and the message followed by a second
  newline, the one \<^verbatim>\<open>http.Error\<close> appends to a message that already ends in one:
  the body ends in two newlines, not in exactly one.
\<close>

theorem probe_handlers_responses:
  "(case handleCheckAlive M ctx newResponseWriter r ambwatch env of
      Panic p \<Rightarrow> aw_FetchEnvoyStats M ambwatch ctx env = Panic p
    | Return (w', aw') \<Rightarrow>
        aw_FetchEnvoyStats M ambwatch ctx env = Return aw' \<and>
        status w' = (if aw_IsAlive M aw' then 200 else 503) \<and>
        written w' = (if aw_IsAlive M aw' then ''Ambassador is alive and well\<newline>''
                      else ''Ambassador is not alive\<newline>\<newline>'') \<and>
        trailing_newlines (written w') = (if aw_IsAlive M aw' then 1 else 2))
   \<and> (case handleCheckReady M ctx newResponseWriter r ambwatch env of
      Panic p \<Rightarrow> aw_FetchEnvoyStats M ambwatch ctx env = Panic p
    | Return (w', aw') \<Rightarrow>
        aw_FetchEnvoyStats M ambwatch ctx env = Return aw' \<and>
        status w' = (if aw_IsReady M aw' then 200 else 503) \<and>
        written w' = (if aw_IsReady M aw' then ''Ambassador is ready and waiting\<newline>''
                      else ''Ambassador is not ready\<newline>\<newline>'') \<and>
        trailing_newlines (written w') = (if aw_IsReady M aw' then 1 else 2))"
  by (simp add: handleCheckAlive_eq handleCheckReady_eq trailing_newlines_def split: go.splits)

text \<open>Both handlers backed by the Envoy watcher, with a fetcher that fails.\<close>

lemma handlers_when_the_fetch_fails:
  "handleCheckAlive watcher_methods ctx newResponseWriter r (SetFetchStats w fetch_error) env
     = Return (\<lparr>wroteHeader = True, status = 503,
                Resp_Header = [''Content-Type'' \<mapsto> [''text/plain; charset=utf-8''],
                               ''X-Content-Type-Options'' \<mapsto> [''nosniff'']],
                written = ''Ambassador is not alive'' @ [CHR 0x0A, CHR 0x0A]\<rparr>,
               SetFetchStats w fetch_error\<lparr>LastSucceeded := False\<rparr>)
   \<and> handleCheckReady watcher_methods ctx newResponseWriter r (SetFetchStats w fetch_error) env
     = Return (\<lparr>wroteHeader = True, status = 503,
                Resp_Header = [''Content-Type'' \<mapsto> [''text/plain; charset=utf-8''],
                               ''X-Content-Type-Options'' \<mapsto> [''nosniff'']],
                written = ''Ambassador is not ready'' @ [CHR 0x0A, CHR 0x0A]\<rparr>,
               SetFetchStats w fetch_error\<lparr>LastSucceeded := False\<rparr>)"
  by (simp add: handleCheckAlive_eq handleCheckReady_eq watcher_methods_def
        FetchEnvoyStats_def SetFetchStats_def fetch_error_def IsAlive_def IsReady_def)

section \<open>The director\<close>

lemma Director_eq:
  "Director HostPortIsLocal req =
     req\<lparr>URL := (URL req)\<lparr>Scheme := ''http'', Host := ''127.0.0.1:8004''\<rparr>,
         Header := (if HostPortIsLocal (RemoteAddr req)
                    then (Header req)(''X-Ambassador-Diag-Ip'' \<mapsto> [''127.0.0.1''])
                    else Header req)\<rparr>"
  by (simp add: Director_def diagdOrigin_def Header_Set_def canonical_marker)

lemma Director_marks_loopback:
  "HostPortIsLocal (RemoteAddr req) \<Longrightarrow>
     Header_Values (Header (Director HostPortIsLocal req)) ''X-Ambassador-Diag-IP''
       = [''127.0.0.1'']"
  by (simp add: Director_eq Header_Values_def canonical_marker)

text \<open>
  Claim C6, as amended. The director replaces the scheme and the host of the URL by those
  of the diagnostics origin and, when the remote address passes the loopback test, sets
  the header \<^verbatim>\<open>X-Ambassador-Diag-IP\<close>; it changes nothing else. The path, the query
  string, the method and the body are those of the inbound request, and so is every field
  of the request other than the URL and the header map.
\<close>

theorem Director_rewrites_scheme_and_host:
  "URL (Director HostPortIsLocal req)
     = (URL req)\<lparr>Scheme := Scheme diagdOrigin, Host := Host diagdOrigin\<rparr>
   \<and> Scheme diagdOrigin = ''http'' \<and> Host diagdOrigin = ''127.0.0.1:8004''
   \<and> Path (URL (Director HostPortIsLocal req)) = Path (URL req)
   \<and> RawPath (URL (Director HostPortIsLocal req)) = RawPath (URL req)
   \<and> RawQuery (URL (Director HostPortIsLocal req)) = RawQuery (URL req)
   \<and> ForceQuery (URL (Director HostPortIsLocal req)) = ForceQuery (URL req)
   \<and> Method (Director HostPortIsLocal req) = Method req
   \<and> Body (Director HostPortIsLocal req) = Body req
   \<and> Header (Director HostPortIsLocal req)
       = (if HostPortIsLocal (RemoteAddr req)
          then Header_Set (Header req) ''X-Ambassador-Diag-IP'' ''127.0.0.1''
          else Header req)
   \<and> Director HostPortIsLocal req
       = req\<lparr>URL := URL (Director HostPortIsLocal req),
             Header := Header (Director HostPortIsLocal req)\<rparr>"
  by (simp add: Director_eq diagdOrigin_def Header_Set_def canonical_marker)

text \<open>Claim C6 as stated fails: for a request from the local host the outbound request
  differs from the inbound one in more than the scheme and the host, namely in its
  headers.\<close>

theorem Director_touches_header_of_local_request:
  "loopback_hostport (RemoteAddr local_request)
   \<and> Header (Director loopback_hostport local_request) \<noteq> Header local_request
   \<and> Director loopback_hostport local_request
       \<noteq> local_request\<lparr>URL := (URL local_request)\<lparr>Scheme := Scheme diagdOrigin,
                                                    Host := Host diagdOrigin\<rparr>\<rparr>"
  by (simp add: Director_eq diagdOrigin_def local_request_def loopback_hostport_def)

text \<open>
  Claim C7, what the code does. The director never removes a header. A request from
  \<^verbatim>\<open>10.0.0.5:40000\<close>, which is not a loopback address, that arrives with the header
  \<^verbatim>\<open>X-Ambassador-Diag-IP: 127.0.0.1\<close> leaves the director with its headers as they
  came: the forwarded request carries the marker, whatever the loopback test answers.
\<close>

theorem Director_forwards_inbound_marker:
  "RemoteAddr spoofed_request = ''10.0.0.5:40000''
   \<and> \<not> loopback_hostport (RemoteAddr spoofed_request)
   \<and> Header (Director loopback_hostport spoofed_request) = Header spoofed_request
   \<and> Header_Values (Header (Director loopback_hostport spoofed_request)) ''X-Ambassador-Diag-IP''
       = [''127.0.0.1'']
   \<and> carries (Header (Director HostPortIsLocal spoofed_request)) ''X-Ambassador-Diag-IP''"
  by (simp add: Director_eq carries_def Header_Values_def canonical_marker spoofed_request_def
        loopback_hostport_def)

section \<open>The server routine\<close>



end
